theory Spec2Isabelle
  imports Main
begin

section \<open>Python values and exceptions\<close>

text \<open>
  The exceptions that can travel through \<^verbatim>\<open>fetch_and_store_candles\<close>. The two
  that the source raises itself carry their message; the others are raised by the
  interpreter or the library (subscripting, iteration, \<^verbatim>\<open>datetime\<close>, the
  connection). \<open>KeyboardInterrupt\<close> and \<open>SystemExit\<close> derive from
  \<^verbatim>\<open>BaseException\<close> only; every other class derives from \<^verbatim>\<open>Exception\<close>.
\<close>

datatype exn =
    ValueError string
  | Exception string
  | TypeError
  | IndexError
  | KeyError
  | OverflowError
  | OSError
  | KeyboardInterrupt
  | SystemExit

text \<open>\<^verbatim>\<open>isinstance(e, Exception)\<close>\<close>

fun is_Exception :: "exn \<Rightarrow> bool" where
  "is_Exception KeyboardInterrupt = False"
| "is_Exception SystemExit = False"
| "is_Exception _ = True"

text \<open>
  A Python \<^verbatim>\<open>float\<close>, named by its \<^verbatim>\<open>repr()\<close> (which is unique for each
  float). The program never computes with the floats of a candle: it copies them.
\<close>

datatype pyfloat = PyFloat string

text \<open>
  What \<^verbatim>\<open>json.loads\<close> returns: \<^verbatim>\<open>None\<close>, \<^verbatim>\<open>bool\<close>, \<^verbatim>\<open>int\<close>,
  \<^verbatim>\<open>float\<close>, \<^verbatim>\<open>str\<close>, \<^verbatim>\<open>list\<close> and \<^verbatim>\<open>dict\<close> (its items in
  insertion order, keys distinct).
\<close>

datatype json =
    JNull
  | JBool bool
  | JInt int
  | JFloat pyfloat
  | JStr string
  | JArr "json list"
  | JObj "(string \<times> json) list"

text \<open>Truth value of a Python object, as \<^verbatim>\<open>not data\<close> tests it.\<close>

fun truthy :: "json \<Rightarrow> bool" where
  "truthy JNull = False"
| "truthy (JBool b) = b"
| "truthy (JInt n) = (n \<noteq> 0)"
| "truthy (JFloat (PyFloat r)) = (r \<noteq> ''0.0'' \<and> r \<noteq> ''-0.0'')"
| "truthy (JStr s) = (s \<noteq> [])"
| "truthy (JArr xs) = (xs \<noteq> [])"
| "truthy (JObj kvs) = (kvs \<noteq> [])"

text \<open>
  \<^verbatim>\<open>for candle in data\<close>: a list yields its elements, a string its characters, a
  dict its keys; anything else is not iterable.
\<close>

fun iterate :: "json \<Rightarrow> exn + json list" where
  "iterate (JArr xs) = Inr xs"
| "iterate (JStr s) = Inr (map (\<lambda>c. JStr [c]) s)"
| "iterate (JObj kvs) = Inr (map (\<lambda>kv. JStr (fst kv)) kvs)"
| "iterate _ = Inl TypeError"

text \<open>
  \<^verbatim>\<open>candle[k]\<close> for a literal index \<open>k \<ge> 0\<close>. The keys of a parsed JSON object are
  strings, so an integer key is never found.
\<close>

fun getitem :: "json \<Rightarrow> nat \<Rightarrow> exn + json" where
  "getitem (JArr xs) k = (if k < length xs then Inr (xs ! k) else Inl IndexError)"
| "getitem (JStr s) k = (if k < length s then Inr (JStr [s ! k]) else Inl IndexError)"
| "getitem (JObj kvs) k = Inl KeyError"
| "getitem _ k = Inl TypeError"

section \<open>Datetimes\<close>

text \<open>
  An aware UTC \<^verbatim>\<open>datetime\<close> is the number of microseconds since
  1970-01-01T00:00:00Z. Python's datetimes range over the years 1 to 9999.
\<close>

type_synonym datetime = int

definition SECOND :: int where
  "SECOND = 1000000"

definition DAY :: int where
  "DAY = 86400 * SECOND"

definition DATETIME_MIN :: datetime where
  "DATETIME_MIN = - 62135596800 * SECOND"

definition DATETIME_MAX :: datetime where
  "DATETIME_MAX = 253402300799 * SECOND + 999999"

text \<open>\<^verbatim>\<open>dt.replace(hour=0, minute=0, second=0, microsecond=0)\<close>\<close>

definition replace_midnight :: "datetime \<Rightarrow> datetime" where
  "replace_midnight t = t - t mod DAY"

text \<open>\<^verbatim>\<open>dt - timedelta(days=1)\<close>, which raises when it leaves the range.\<close>

definition minus_one_day :: "datetime \<Rightarrow> exn + datetime" where
  "minus_one_day t = (if t - DAY < DATETIME_MIN then Inl OverflowError else Inr (t - DAY))"

text \<open>\<^verbatim>\<open>datetime(2015, 7, 20, tzinfo=UTC)\<close>\<close>

definition STOP_DATE :: datetime where
  "STOP_DATE = 1437350400 * SECOND"

subsection \<open>Rendering\<close>

definition digit :: "nat \<Rightarrow> char" where
  "digit n = ''0123456789'' ! (n mod 10)"

fun digits :: "nat \<Rightarrow> string" where
  "digits n = (if n < 10 then [digit n] else digits (n div 10) @ [digit n])"

declare digits.simps [simp del]

text \<open>\<^verbatim>\<open>'%0wd' % n\<close> for \<open>n \<ge> 0\<close>\<close>

definition zero_padded :: "nat \<Rightarrow> nat \<Rightarrow> string" where
  "zero_padded w n = replicate (w - length (digits n)) (CHR ''0'') @ digits n"

text \<open>
  The proleptic Gregorian date (year, month, day) of a day number counted from
  1970-01-01, by the era/day-of-era computation (400-year eras starting on 1 March).
\<close>

definition civil_from_days :: "int \<Rightarrow> int \<times> int \<times> int" where
  "civil_from_days z0 =
     (let z = z0 + 719468;
          era = z div 146097;
          doe = z - era * 146097;
          yoe = (doe - doe div 1460 + doe div 36524 - doe div 146096) div 365;
          doy = doe - (365 * yoe + yoe div 4 - yoe div 100);
          mp = (5 * doy + 2) div 153;
          d = doy - (153 * mp + 2) div 5 + 1;
          m = (if mp < 10 then mp + 3 else mp - 9);
          y = yoe + era * 400 + (if m \<le> 2 then 1 else 0)
      in (y, m, d))"

text \<open>
  \<^verbatim>\<open>dt.isoformat()\<close> of an aware UTC datetime: the microseconds are printed only
  when they are not zero.
\<close>

definition isoformat :: "datetime \<Rightarrow> string" where
  "isoformat t =
     (let secs = t div SECOND;
          us = t mod SECOND;
          sod = secs mod 86400;
          (y, m, d) = civil_from_days (secs div 86400)
      in zero_padded 4 (nat y) @ ''-'' @ zero_padded 2 (nat m) @ ''-'' @ zero_padded 2 (nat d)
         @ ''T'' @ zero_padded 2 (nat (sod div 3600)) @ '':''
         @ zero_padded 2 (nat (sod mod 3600 div 60)) @ '':''
         @ zero_padded 2 (nat (sod mod 60))
         @ (if us = 0 then [] else ''.'' @ zero_padded 6 (nat us))
         @ ''+00:00'')"

text \<open>\<^verbatim>\<open>dt.strftime("%Y%m%d_%H%M%S")\<close>\<close>

definition strftime_stamp :: "datetime \<Rightarrow> string" where
  "strftime_stamp t =
     (let secs = t div SECOND;
          sod = secs mod 86400;
          (y, m, d) = civil_from_days (secs div 86400)
      in zero_padded 4 (nat y) @ zero_padded 2 (nat m) @ zero_padded 2 (nat d)
         @ ''_'' @ zero_padded 2 (nat (sod div 3600))
         @ zero_padded 2 (nat (sod mod 3600 div 60))
         @ zero_padded 2 (nat (sod mod 60)))"

section \<open>The environment of a run\<close>

text \<open>
  What the network does with the \<open>i\<close>-th request of a run: \<^verbatim>\<open>conn.request\<close> or
  \<^verbatim>\<open>conn.getresponse\<close> raises; or a response arrives (status, reason) and reading or
  decoding its body raises; or the body is read. An interruption from the keyboard
  arrives as \<open>KeyboardInterrupt\<close> raised inside one of these blocking calls.
\<close>

datatype body =
    Malformed         \<comment> \<open>\<^verbatim>\<open>json.loads\<close> raises \<^verbatim>\<open>JSONDecodeError\<close>\<close>
  | Parsed json       \<comment> \<open>\<^verbatim>\<open>json.loads\<close> returns this value\<close>

datatype outcome =
    SendRaises exn
  | ReadRaises int string exn
  | Response int string body

text \<open>
  The clocks (\<^verbatim>\<open>datetime.now(UTC)\<close>, and the local wall clock of
  \<^verbatim>\<open>datetime.now()\<close>), the network, and the library's conversion of a float
  timestamp (floating-point rounding to microseconds), taken as given.
\<close>

record env =
  utc_now :: datetime
  local_now :: datetime
  network :: "nat \<Rightarrow> outcome"
  float_fromtimestamp :: "pyfloat \<Rightarrow> exn + datetime"

section \<open>Candle records\<close>

record candle_record =
  Exchange :: string
  Pair :: string
  Close_Timestamp :: string
  Low :: json
  High :: json
  Open :: json
  Close :: json
  Volume :: json

text \<open>
  \<^verbatim>\<open>datetime.fromtimestamp(x, UTC)\<close>: an integer (or a bool, which is an integer)
  counts seconds; outside the years 1 to 9999 the call raises (\<^verbatim>\<open>ValueError\<close>, or
  \<^verbatim>\<open>OverflowError\<close> beyond the platform's \<^verbatim>\<open>time_t\<close>: one class here).
\<close>

definition fromtimestamp_int :: "int \<Rightarrow> exn + datetime" where
  "fromtimestamp_int t =
     (if DATETIME_MIN \<le> t * SECOND \<and> t * SECOND \<le> DATETIME_MAX then Inr (t * SECOND)
      else Inl (ValueError ''year out of range''))"

fun fromtimestamp :: "env \<Rightarrow> json \<Rightarrow> exn + datetime" where
  "fromtimestamp E (JInt t) = fromtimestamp_int t"
| "fromtimestamp E (JBool b) = fromtimestamp_int (if b then 1 else 0)"
| "fromtimestamp E (JFloat f) = float_fromtimestamp E f"
| "fromtimestamp E _ = Inl TypeError"

text \<open>
  Lines 88 to 98: the record of one raw candle. The subscripts are evaluated in the
  order of the source, and the first one that raises ends the construction.
\<close>

definition make_record :: "env \<Rightarrow> string \<Rightarrow> json \<Rightarrow> exn + candle_record" where
  "make_record E product_id candle =
     (case getitem candle 0 of Inl e \<Rightarrow> Inl e | Inr c0 \<Rightarrow>
     (case fromtimestamp E c0 of Inl e \<Rightarrow> Inl e | Inr close_timestamp \<Rightarrow>
     (case getitem candle 1 of Inl e \<Rightarrow> Inl e | Inr c1 \<Rightarrow>
     (case getitem candle 2 of Inl e \<Rightarrow> Inl e | Inr c2 \<Rightarrow>
     (case getitem candle 3 of Inl e \<Rightarrow> Inl e | Inr c3 \<Rightarrow>
     (case getitem candle 4 of Inl e \<Rightarrow> Inl e | Inr c4 \<Rightarrow>
     (case getitem candle 5 of Inl e \<Rightarrow> Inl e | Inr c5 \<Rightarrow>
        Inr \<lparr>Exchange = ''Coinbase'',
             Pair = product_id,
             Close_Timestamp = isoformat close_timestamp,
             Low = c1, High = c2, Open = c3, Close = c4, Volume = c5\<rparr>)))))))"

text \<open>
  Lines 87 to 99: the records are appended one at a time; the candle whose record
  cannot be built ends the loop with its exception, after the earlier appends.
\<close>

fun append_candles ::
  "env \<Rightarrow> string \<Rightarrow> json list \<Rightarrow> candle_record list \<Rightarrow> exn option \<times> candle_record list" where
  "append_candles E product_id [] candle_data = (None, candle_data)"
| "append_candles E product_id (candle # rest) candle_data =
     (case make_record E product_id candle of
        Inl e \<Rightarrow> (Some e, candle_data)
      | Inr candle_record \<Rightarrow> append_candles E product_id rest (candle_data @ [candle_record]))"

section \<open>The run\<close>

text \<open>
  The effects of a run, in the order they happen: the lines logged at level INFO and
  ERROR (DEBUG lines are left out), the requests sent, and the file written.
\<close>

datatype event =
    Log_invalid_granularity int           \<comment> \<open>line 20, ERROR\<close>
  | Log_csv_filename string               \<comment> \<open>line 27\<close>
  | Log_starting datetime                 \<comment> \<open>line 31\<close>
  | Log_fetching datetime datetime        \<comment> \<open>line 36: start, end\<close>
  | Request string datetime datetime int  \<comment> \<open>line 61: product, start, end, granularity\<close>
  | Log_received int string               \<comment> \<open>line 63: status, reason\<close>
  | Log_send_failed exn                   \<comment> \<open>line 65, ERROR\<close>
  | Log_json_error                        \<comment> \<open>line 79, ERROR\<close>
  | Log_no_data                           \<comment> \<open>line 83\<close>
  | Log_fetched nat datetime              \<comment> \<open>line 100\<close>
  | Log_moving datetime                   \<comment> \<open>line 104\<close>
  | Log_stopping_date                     \<comment> \<open>line 108\<close>
  | Log_error_fetching exn                \<comment> \<open>line 112, ERROR\<close>
  | Log_keyboard_interrupt                \<comment> \<open>line 115\<close>
  | Log_writing nat                       \<comment> \<open>line 120\<close>
  | Write_csv string "string list" "candle_record list"
                                          \<comment> \<open>lines 121 to 125: file name, header, rows\<close>
  | Log_wrote nat string                  \<comment> \<open>line 126\<close>
  | Log_no_data_to_write                  \<comment> \<open>line 128\<close>

text \<open>\<^verbatim>\<open>str(n)\<close> of an integer\<close>

definition str_int :: "int \<Rightarrow> string" where
  "str_int n = (if n < 0 then ''-'' @ digits (nat (- n)) else digits (nat n))"

definition generate_unique_csv_filename :: "env \<Rightarrow> string" where
  "generate_unique_csv_filename E = ''hourly_candles_'' @ strftime_stamp (local_now E) @ ''.csv''"

text \<open>The two variables that the loop updates.\<close>

record vars =
  end_time :: datetime
  candle_data :: "candle_record list"

datatype control = Continue | Break | Raise exn

text \<open>
  One pass through the body of \<^verbatim>\<open>while True\<close> (lines 35 to 109), the \<open>i\<close>-th of
  the run: how it leaves the body, the variables, and the effects of the pass.
  The inner handler of lines 64 to 66 catches \<^verbatim>\<open>Exception\<close> only.
\<close>

definition iteration ::
  "env \<Rightarrow> string \<Rightarrow> int \<Rightarrow> nat \<Rightarrow> vars \<Rightarrow> control \<times> vars \<times> event list" where
  "iteration E product_id granularity i st =
     (case minus_one_day (end_time st) of
        Inl e \<Rightarrow> (Raise e, st, [])
      | Inr start_time \<Rightarrow>
         (let sent = [Log_fetching start_time (end_time st),
                      Request product_id start_time (end_time st) granularity]
          in case network E i of
               SendRaises e \<Rightarrow>
                 if is_Exception e then (Break, st, sent @ [Log_send_failed e])
                 else (Raise e, st, sent)
             | ReadRaises status reason e \<Rightarrow>
                 (Raise e, st, sent @ [Log_received status reason])
             | Response status reason response_body \<Rightarrow>
                (let received = sent @ [Log_received status reason]
                 in if status \<noteq> 200
                    then (Raise (Exception (''Error fetching data: '' @ str_int status
                                              @ '' '' @ reason)), st, received)
                    else (case response_body of
                            Malformed \<Rightarrow> (Break, st, received @ [Log_json_error])
                          | Parsed data \<Rightarrow>
                             if \<not> truthy data then (Break, st, received @ [Log_no_data])
                             else (case iterate data of
                                     Inl e \<Rightarrow> (Raise e, st, received)
                                   | Inr candles \<Rightarrow>
                                      (case append_candles E product_id candles (candle_data st) of
                                         (Some e, acc) \<Rightarrow>
                                           (Raise e, st\<lparr>candle_data := acc\<rparr>, received)
                                       | (None, acc) \<Rightarrow>
                                          (let fetched = received
                                                 @ [Log_fetched (length candles) (end_time st),
                                                    Log_moving start_time];
                                               st' = \<lparr>end_time = start_time, candle_data = acc\<rparr>
                                           in if start_time < STOP_DATE
                                              then (Break, st', fetched @ [Log_stopping_date])
                                              else (Continue, st', fetched))))))))"

lemma iteration_Continue:
  assumes "iteration E product_id granularity i st = (Continue, st', evs)"
  shows "end_time st' = end_time st - DAY" and "STOP_DATE \<le> end_time st'"
  using assms
  by (auto simp: iteration_def minus_one_day_def Let_def
           split: sum.splits outcome.splits body.splits if_splits prod.splits option.splits)

text \<open>
  The \<^verbatim>\<open>while True\<close> loop of lines 34 to 109, from its \<open>i\<close>-th pass on: the
  exception that leaves it (if one does), the variables at that point, and the effects.
  It ends because each pass that continues moves \<open>end_time\<close> one day back and
  leaves it at or after the stopping date.
\<close>

function loop ::
  "env \<Rightarrow> string \<Rightarrow> int \<Rightarrow> nat \<Rightarrow> vars \<Rightarrow> exn option \<times> vars \<times> event list" where
  "loop E product_id granularity i st =
     (case iteration E product_id granularity i st of
        (Continue, st', evs) \<Rightarrow>
          (case loop E product_id granularity (Suc i) st' of
             (raised, st'', evs') \<Rightarrow> (raised, st'', evs @ evs'))
      | (Break, st', evs) \<Rightarrow> (None, st', evs)
      | (Raise e, st', evs) \<Rightarrow> (Some e, st', evs))"
  by pat_completeness auto
termination
proof (relation "measure (\<lambda>(E, product_id, granularity, i, st). nat (end_time st - STOP_DATE + DAY))")
  show "wf (measure (\<lambda>(E, product_id, granularity, i, st). nat (end_time st - STOP_DATE + DAY)))"
    by simp
next
  fix E product_id granularity i st x y st' evs
  assume "(x, y) = iteration E product_id granularity i st" "x = Continue" "(st', evs) = y"
  then have c: "iteration E product_id granularity i st = (Continue, st', evs)"
    by simp
  have "0 < DAY"
    by (simp add: DAY_def SECOND_def)
  with iteration_Continue [OF c]
  show "((E, product_id, granularity, Suc i, st'), (E, product_id, granularity, i, st))
          \<in> measure (\<lambda>(E, product_id, granularity, i, st). nat (end_time st - STOP_DATE + DAY))"
    by simp
qed

declare loop.simps [simp del]

text \<open>
  Lines 117 to 128, the \<^verbatim>\<open>finally\<close> block: the file is written when some record
  was accumulated, with the header row and the records as rows.
\<close>

definition fieldnames :: "string list" where
  "fieldnames = [''Exchange'', ''Pair'', ''Close Timestamp'', ''Low'', ''High'', ''Open'',
                 ''Close'', ''Volume'']"

definition finalization :: "string \<Rightarrow> candle_record list \<Rightarrow> event list" where
  "finalization csv_filename rows =
     (if rows \<noteq> []
      then [Log_writing (length rows),
            Write_csv csv_filename fieldnames rows,
            Log_wrote (length rows) csv_filename]
      else [Log_no_data_to_write])"

text \<open>
  Lines 111 to 115, the handlers of the outer \<^verbatim>\<open>try\<close>, in the order of the
  source: what still travels on after them, and what they log. An exception that
  neither clause matches travels on after the \<^verbatim>\<open>finally\<close> block.
\<close>

definition handlers :: "exn option \<Rightarrow> exn option \<times> event list" where
  "handlers raised =
     (case raised of
        None \<Rightarrow> (None, [])
      | Some e \<Rightarrow>
          if is_Exception e then (None, [Log_error_fetching e])
          else if e = KeyboardInterrupt then (None, [Log_keyboard_interrupt])
          else (Some e, []))"

definition allowed_granularities :: "int list" where
  "allowed_granularities = [60, 300, 900, 3600, 21600, 86400]"

text \<open>The variables on entering the loop (lines 25 and 30).\<close>

definition initial_vars :: "env \<Rightarrow> vars" where
  "initial_vars E = \<lparr>end_time = replace_midnight (utc_now E), candle_data = []\<rparr>"

text \<open>
  A run of \<^verbatim>\<open>fetch_and_store_candles(product_id, granularity)\<close>: the exception it
  raises to its caller (\<open>None\<close> when it returns), and its effects in order.
\<close>

definition fetch_and_store_candles :: "env \<Rightarrow> string \<Rightarrow> int \<Rightarrow> exn option \<times> event list" where
  "fetch_and_store_candles E product_id granularity =
     (if granularity \<notin> set allowed_granularities
      then (Some (ValueError (''Invalid granularity: '' @ str_int granularity)),
            [Log_invalid_granularity granularity])
      else
        (let csv_filename = generate_unique_csv_filename E;
             started = [Log_csv_filename csv_filename,
                        Log_starting (replace_midnight (utc_now E))]
         in case loop E product_id granularity 0 (initial_vars E) of
              (raised, st, evs) \<Rightarrow>
                (case handlers raised of
                   (propagated, logged) \<Rightarrow>
                     (propagated,
                      started @ evs @ logged @ finalization csv_filename (candle_data st)))))"

section \<open>Notions used by the properties\<close>

text \<open>
  A raw candle of the exchange: the 6-tuple (epoch seconds, low, high, open, close,
  volume), the JSON array that carries it, and the record lines 88 to 98 build for it.
\<close>

type_synonym raw_candle = "int \<times> json \<times> json \<times> json \<times> json \<times> json"

fun json_of_candle :: "raw_candle \<Rightarrow> json" where
  "json_of_candle (t, lo, hi, op, cl, vol) = JArr [JInt t, lo, hi, op, cl, vol]"

fun record_of :: "string \<Rightarrow> raw_candle \<Rightarrow> candle_record" where
  "record_of pair (t, lo, hi, op, cl, vol) =
     \<lparr>Exchange = ''Coinbase'', Pair = pair, Close_Timestamp = isoformat (t * SECOND),
      Low = lo, High = hi, Open = op, Close = cl, Volume = vol\<rparr>"

text \<open>Epoch seconds from 0001-01-01T00:00:00Z to 9999-12-31T23:59:59Z.\<close>

definition valid_timestamp :: "int \<Rightarrow> bool" where
  "valid_timestamp t = (- 62135596800 \<le> t \<and> t \<le> 253402300799)"

text \<open>The windows requested, in order: (start, end) of each \<open>Request\<close>.\<close>

fun window_of :: "event \<Rightarrow> (datetime \<times> datetime) option" where
  "window_of (Request product_id start end granularity) = Some (start, end)"
| "window_of _ = None"

definition requests :: "event list \<Rightarrow> (datetime \<times> datetime) list" where
  "requests evs = List.map_filter window_of evs"

text \<open>
  The finalization step is reached once for each file written or each report that
  there is no data to write: the \<^verbatim>\<open>finally\<close> block does exactly one of the two.
\<close>

fun is_finalization :: "event \<Rightarrow> bool" where
  "is_finalization (Write_csv csv_filename header rows) = True"
| "is_finalization Log_no_data_to_write = True"
| "is_finalization _ = False"

definition finalizations :: "event list \<Rightarrow> nat" where
  "finalizations evs = length (filter is_finalization evs)"

text \<open>
  The loop reaches its pass \<open>i + n\<close> from its pass \<open>i\<close> when the \<open>n\<close> passes in
  between all continue; \<open>reach\<close> gives the variables on entering that pass and the
  effects of the passes before it.
\<close>

fun reach :: "env \<Rightarrow> string \<Rightarrow> int \<Rightarrow> nat \<Rightarrow> nat \<Rightarrow> vars \<Rightarrow> (vars \<times> event list) option" where
  "reach E product_id granularity 0 i st = Some (st, [])"
| "reach E product_id granularity (Suc n) i st =
     (case iteration E product_id granularity i st of
        (Continue, st', evs) \<Rightarrow>
          (case reach E product_id granularity n (Suc i) st' of
             Some (st'', evs') \<Rightarrow> Some (st'', evs @ evs')
           | None \<Rightarrow> None)
      | (Break, st', evs) \<Rightarrow> None
      | (Raise e, st', evs) \<Rightarrow> None)"

text \<open>The two lines logged before the loop (lines 27 and 31).\<close>

definition started :: "env \<Rightarrow> event list" where
  "started E = [Log_csv_filename (generate_unique_csv_filename E),
                Log_starting (replace_midnight (utc_now E))]"

text \<open>
  Windows that walk back one day at a time from \<open>e\<close>: each ends where the one
  before it starts and is one day long.
\<close>

fun chain :: "datetime \<Rightarrow> (datetime \<times> datetime) list \<Rightarrow> bool" where
  "chain e [] = True"
| "chain e ((s, e') # ws) = (e' = e \<and> s = e - DAY \<and> chain s ws)"

subsection \<open>Concrete environments\<close>

text \<open>
  A run whose clock reads \<open>now\<close> (local time two hours ahead of UTC) and whose
  requests are answered by \<open>script\<close> in order, then with status 200 and an empty
  array. Float timestamps do not occur in these runs.
\<close>

definition scripted :: "datetime \<Rightarrow> outcome list \<Rightarrow> env" where
  "scripted now script =
     \<lparr>utc_now = now,
      local_now = now + 7200 * SECOND,
      network = (\<lambda>i. if i < length script then script ! i
                     else Response 200 ''OK'' (Parsed (JArr []))),
      float_fromtimestamp = (\<lambda>f. Inl OverflowError)\<rparr>"

text \<open>2024-03-15T10:30:00.250000Z\<close>

definition clock_2024 :: datetime where
  "clock_2024 = 1710498600 * SECOND + 250000"

text \<open>
  Candles closing at 2024-03-14T23:00Z, 2024-03-13T23:00Z, 2015-07-19T23:00Z and
  2015-07-18T23:00Z.
\<close>

definition candle_a :: raw_candle where
  "candle_a = (1710457200, JInt 275, JInt 280, JInt 276, JInt 278, JFloat (PyFloat ''12.5''))"

definition candle_b :: raw_candle where
  "candle_b = (1710370800, JInt 270, JInt 277, JInt 271, JInt 275, JFloat (PyFloat ''8.25''))"

definition candle_c :: raw_candle where
  "candle_c = (1437346800, JInt 270, JInt 277, JInt 271, JInt 275, JFloat (PyFloat ''8.25''))"

definition candle_d :: raw_candle where
  "candle_d = (1437260400, JInt 265, JInt 272, JInt 266, JInt 270, JInt 7)"

definition ok_response :: "raw_candle list \<Rightarrow> outcome" where
  "ok_response cs = Response 200 ''OK'' (Parsed (JArr (map json_of_candle cs)))"

text \<open>
  The variables and the effects after the first pass of a run started at
  \<open>clock_2024\<close> whose first response carries \<open>candle_a\<close>.
\<close>

definition after_first_pass :: vars where
  "after_first_pass =
     \<lparr>end_time = 1710374400 * SECOND, candle_data = [record_of ''BTC-USD'' candle_a]\<rparr>"

definition first_pass :: "event list" where
  "first_pass =
     [Log_fetching (1710374400 * SECOND) (1710460800 * SECOND),
      Request ''BTC-USD'' (1710374400 * SECOND) (1710460800 * SECOND) 3600,
      Log_received 200 ''OK'',
      Log_fetched 1 (1710460800 * SECOND),
      Log_moving (1710374400 * SECOND)]"

section \<open>Lemmas\<close>

subsection \<open>Building records\<close>

lemma fromtimestamp_int_valid:
  "valid_timestamp t \<Longrightarrow> fromtimestamp_int t = Inr (t * SECOND)"
  by (simp add: valid_timestamp_def fromtimestamp_int_def DATETIME_MIN_def DATETIME_MAX_def
        SECOND_def)

lemma make_record_json_of_candle:
  "valid_timestamp (fst c) \<Longrightarrow> make_record E pair (json_of_candle c) = Inr (record_of pair c)"
  by (cases c) (simp add: make_record_def fromtimestamp_int_valid)

lemma isoformat_2021: "isoformat (1609459200 * SECOND) = ''2021-01-01T00:00:00+00:00''"
  by code_simp

lemma append_candles_append:
  "append_candles E p (xs @ ys) acc =
     (case append_candles E p xs acc of
        (None, acc') \<Rightarrow> append_candles E p ys acc'
      | (Some e, acc') \<Rightarrow> (Some e, acc'))"
  by (induction xs arbitrary: acc) (auto split: sum.splits)

lemma append_candles_valid:
  "list_all (\<lambda>c. valid_timestamp (fst c)) cs \<Longrightarrow>
     append_candles E p (map json_of_candle cs) acc = (None, acc @ map (record_of p) cs)"
  by (induction cs arbitrary: acc) (auto simp: make_record_json_of_candle)

lemma append_candles_partial:
  assumes "list_all (\<lambda>c. valid_timestamp (fst c)) good" and "make_record E p bad = Inl e"
  shows "append_candles E p (map json_of_candle good @ bad # rest) acc =
           (Some e, acc @ map (record_of p) good)"
  using assms by (simp add: append_candles_append append_candles_valid)

subsection \<open>One pass of the loop, by what the network does\<close>

lemma minus_one_day_after_stop:
  "STOP_DATE \<le> t - DAY \<Longrightarrow> minus_one_day t = Inr (t - DAY)"
  by (simp add: minus_one_day_def STOP_DATE_def DATETIME_MIN_def SECOND_def)

lemma iteration_not_200:
  assumes "minus_one_day (end_time st) = Inr start_time"
    and "network E i = Response status reason response_body" and "status \<noteq> 200"
  shows "iteration E p g i st =
           (Raise (Exception (''Error fetching data: '' @ str_int status @ '' '' @ reason)), st,
            [Log_fetching start_time (end_time st), Request p start_time (end_time st) g,
             Log_received status reason])"
  using assms by (simp add: iteration_def)

lemma iteration_Malformed:
  assumes "minus_one_day (end_time st) = Inr start_time"
    and "network E i = Response 200 reason Malformed"
  shows "iteration E p g i st =
           (Break, st,
            [Log_fetching start_time (end_time st), Request p start_time (end_time st) g,
             Log_received 200 reason, Log_json_error])"
  using assms by (simp add: iteration_def)

lemma iteration_SendRaises:
  assumes "minus_one_day (end_time st) = Inr start_time"
    and "network E i = SendRaises e"
  shows "iteration E p g i st =
           (if is_Exception e
            then (Break, st,
              [Log_fetching start_time (end_time st), Request p start_time (end_time st) g,
               Log_send_failed e])
            else (Raise e, st,
              [Log_fetching start_time (end_time st), Request p start_time (end_time st) g]))"
  using assms by (simp add: iteration_def)

lemma iteration_ReadRaises:
  assumes "minus_one_day (end_time st) = Inr start_time"
    and "network E i = ReadRaises status reason e"
  shows "iteration E p g i st =
           (Raise e, st,
            [Log_fetching start_time (end_time st), Request p start_time (end_time st) g,
             Log_received status reason])"
  using assms by (simp add: iteration_def)

lemma iteration_falsy:
  assumes "minus_one_day (end_time st) = Inr start_time"
    and "network E i = Response 200 reason (Parsed data)" and "\<not> truthy data"
  shows "iteration E p g i st =
           (Break, st,
            [Log_fetching start_time (end_time st), Request p start_time (end_time st) g,
             Log_received 200 reason, Log_no_data])"
  using assms by (simp add: iteration_def)

lemma iteration_candles_raise:
  assumes "minus_one_day (end_time st) = Inr start_time"
    and "network E i = Response 200 reason (Parsed (JArr candles))" and "candles \<noteq> []"
    and "append_candles E p candles (candle_data st) = (Some e, acc)"
  shows "iteration E p g i st =
           (Raise e, st\<lparr>candle_data := acc\<rparr>,
            [Log_fetching start_time (end_time st), Request p start_time (end_time st) g,
             Log_received 200 reason])"
  using assms by (simp add: iteration_def)

lemma iteration_candles_ok:
  assumes "minus_one_day (end_time st) = Inr start_time"
    and "network E i = Response 200 reason (Parsed (JArr candles))" and "candles \<noteq> []"
    and "append_candles E p candles (candle_data st) = (None, acc)"
  shows "iteration E p g i st =
           (if start_time < STOP_DATE then Break else Continue,
            \<lparr>end_time = start_time, candle_data = acc\<rparr>,
            [Log_fetching start_time (end_time st), Request p start_time (end_time st) g,
             Log_received 200 reason, Log_fetched (length candles) (end_time st),
             Log_moving start_time]
            @ (if start_time < STOP_DATE then [Log_stopping_date] else []))"
  using assms by (simp add: iteration_def)

lemma requests_append: "requests (xs @ ys) = requests xs @ requests ys"
  by (simp add: requests_def map_filter_def)

lemma finalizations_append: "finalizations (xs @ ys) = finalizations xs + finalizations ys"
  by (simp add: finalizations_def)

lemma iteration_finalizations: "finalizations (snd (snd (iteration E p g i st))) = 0"
  by (simp add: iteration_def finalizations_def Let_def
        split: sum.splits outcome.splits body.splits prod.splits option.splits)

lemma iteration_requests:
  "requests (snd (snd (iteration E p g i st))) =
     (case minus_one_day (end_time st) of Inl e \<Rightarrow> [] | Inr s \<Rightarrow> [(s, end_time st)])"
  by (simp add: iteration_def requests_def map_filter_def Let_def
        split: sum.splits outcome.splits body.splits prod.splits option.splits)

lemma iteration_Continue_requests:
  assumes "iteration E p g i st = (Continue, st', evs)"
  shows "requests evs = [(end_time st - DAY, end_time st)]"
proof -
  from assms have "minus_one_day (end_time st) = Inr (end_time st - DAY)"
    by (auto simp: iteration_def minus_one_day_def split: if_splits)
  with iteration_requests [of E p g i st] assms show ?thesis
    by simp
qed

lemma iteration_requests_cases:
  "requests (snd (snd (iteration E p g i st))) = [] \<or>
   requests (snd (snd (iteration E p g i st))) = [(end_time st - DAY, end_time st)]"
  by (simp add: iteration_requests minus_one_day_def)

subsection \<open>The loop\<close>

lemma loop_Break:
  "iteration E p g i st = (Break, st', evs) \<Longrightarrow> loop E p g i st = (None, st', evs)"
  by (simp add: loop.simps)

lemma loop_Raise:
  "iteration E p g i st = (Raise e, st', evs) \<Longrightarrow> loop E p g i st = (Some e, st', evs)"
  by (simp add: loop.simps)

lemma loop_Continue:
  "iteration E p g i st = (Continue, st', evs) \<Longrightarrow>
     loop E p g i st = (case loop E p g (Suc i) st' of (r, st'', evs') \<Rightarrow> (r, st'', evs @ evs'))"
  by (simp add: loop.simps)

lemma loop_Continue_events:
  "iteration E p g i st = (Continue, st', evs) \<Longrightarrow>
     snd (snd (loop E p g i st)) = evs @ snd (snd (loop E p g (Suc i) st'))"
  by (simp add: loop_Continue split: prod.splits)

lemma loop_first_pass:
  "\<exists>rest. snd (snd (loop E p g i st)) = snd (snd (iteration E p g i st)) @ rest"
proof -
  obtain c st' evs where it: "iteration E p g i st = (c, st', evs)"
    by (cases "iteration E p g i st") auto
  then show ?thesis
    by (cases c) (simp_all add: loop_Continue_events loop_Break loop_Raise)
qed

lemma loop_reach:
  "reach E p g n i st = Some (st', evs) \<Longrightarrow>
     loop E p g i st = (case loop E p g (i + n) st' of (r, st'', evs') \<Rightarrow> (r, st'', evs @ evs'))"
proof (induction n arbitrary: i st evs)
  case 0
  then show ?case by (simp split: prod.splits)
next
  case (Suc n)
  from Suc.prems obtain st1 evs1 evs2 where
    it: "iteration E p g i st = (Continue, st1, evs1)" and
    re: "reach E p g n (Suc i) st1 = Some (st', evs2)" and
    eq: "evs = evs1 @ evs2"
    by (auto split: prod.splits control.splits option.splits)
  from Suc.IH [OF re] loop_Continue [OF it] eq show ?case
    by (simp split: prod.splits)
qed

lemma reach_snoc:
  "reach E p g n i st = Some (st', evs) \<Longrightarrow>
   iteration E p g (i + n) st' = (Continue, st'', evs') \<Longrightarrow>
     reach E p g (Suc n) i st = Some (st'', evs @ evs')"
proof (induction n arbitrary: i st evs)
  case 0
  then show ?case by simp
next
  case (Suc n)
  from Suc.prems(1) obtain st1 evs1 evs2 where
    it: "iteration E p g i st = (Continue, st1, evs1)" and
    re: "reach E p g n (Suc i) st1 = Some (st', evs2)" and
    eq: "evs = evs1 @ evs2"
    by (auto split: prod.splits control.splits option.splits)
  from Suc.prems(2) have "iteration E p g (Suc i + n) st' = (Continue, st'', evs')"
    by simp
  from Suc.IH [OF re this] it eq show ?case
    by simp
qed

lemma reach_script:
  assumes script: "\<forall>i < length css. \<exists>reason.
        network E i = Response 200 reason (Parsed (JArr (map json_of_candle (css ! i))))"
    and valid: "list_all (\<lambda>cs. cs \<noteq> [] \<and> list_all (\<lambda>c. valid_timestamp (fst c)) cs) css"
    and stop: "STOP_DATE \<le> replace_midnight (utc_now E) - int (length css) * DAY"
  shows "m \<le> length css \<Longrightarrow>
     \<exists>evs. reach E p g m 0 (initial_vars E) =
       Some (\<lparr>end_time = replace_midnight (utc_now E) - int m * DAY,
              candle_data = concat (map (map (record_of p)) (take m css))\<rparr>, evs)"
proof (induction m)
  case 0
  then show ?case
    by (simp add: initial_vars_def)
next
  case (Suc m)
  define e0 where "e0 = replace_midnight (utc_now E)"
  define st where "st = \<lparr>end_time = e0 - int m * DAY,
    candle_data = concat (map (map (record_of p)) (take m css))\<rparr>"
  from Suc have m: "m < length css"
    by simp
  with Suc.IH obtain evs where re: "reach E p g m 0 (initial_vars E) = Some (st, evs)"
    by (auto simp: st_def e0_def)
  have day: "0 < DAY"
    by (simp add: DAY_def SECOND_def)
  from m have "int (Suc m) \<le> int (length css)"
    by simp
  with day have "int (Suc m) * DAY \<le> int (length css) * DAY"
    by (simp only: mult_le_cancel_right) simp
  with stop have after: "STOP_DATE \<le> end_time st - DAY"
    by (simp add: st_def e0_def algebra_simps)
  then have start: "minus_one_day (end_time st) = Inr (end_time st - DAY)"
    by (rule minus_one_day_after_stop)
  from script m obtain reason where
    net: "network E m = Response 200 reason (Parsed (JArr (map json_of_candle (css ! m))))"
    by blast
  from valid m have ne: "css ! m \<noteq> []" and ok: "list_all (\<lambda>c. valid_timestamp (fst c)) (css ! m)"
    by (simp_all add: list_all_length)
  from ok have app: "append_candles E p (map json_of_candle (css ! m)) (candle_data st) =
      (None, candle_data st @ map (record_of p) (css ! m))"
    by (rule append_candles_valid)
  from ne have ne': "map json_of_candle (css ! m) \<noteq> []"
    by simp
  from iteration_candles_ok [OF start net ne' app, of g] after
  have "iteration E p g (0 + m) st =
      (Continue,
       \<lparr>end_time = end_time st - DAY,
        candle_data = candle_data st @ map (record_of p) (css ! m)\<rparr>,
       [Log_fetching (end_time st - DAY) (end_time st),
        Request p (end_time st - DAY) (end_time st) g,
        Log_received 200 reason, Log_fetched (length (css ! m)) (end_time st),
        Log_moving (end_time st - DAY)])"
    by simp
  from reach_snoc [OF re this] m show ?case
    by (simp add: st_def e0_def take_Suc_conv_app_nth algebra_simps)
qed

lemma loop_finalizations: "finalizations (snd (snd (loop E p g i st))) = 0"
proof (induction E p g i st rule: loop.induct)
  case (1 E p g i st)
  obtain c st' evs where it: "iteration E p g i st = (c, st', evs)"
    by (cases "iteration E p g i st") auto
  with iteration_finalizations [of E p g i st] have f: "finalizations evs = 0"
    by simp
  show ?case
  proof (cases c)
    case Continue
    from "1.IH" [OF it [symmetric] Continue refl]
    have "finalizations (snd (snd (loop E p g (Suc i) st'))) = 0"
      by simp
    with it Continue f show ?thesis
      by (simp add: loop_Continue_events finalizations_append)
  next
    case Break
    with it f show ?thesis by (simp add: loop_Break)
  next
    case (Raise e)
    with it f show ?thesis by (simp add: loop_Raise)
  qed
qed

lemma loop_chain: "chain (end_time st) (requests (snd (snd (loop E p g i st))))"
proof (induction E p g i st rule: loop.induct)
  case (1 E p g i st)
  obtain c st' evs where it: "iteration E p g i st = (c, st', evs)"
    by (cases "iteration E p g i st") auto
  show ?case
  proof (cases c)
    case Continue
    from "1.IH" [OF it [symmetric] Continue refl]
    have "chain (end_time st') (requests (snd (snd (loop E p g (Suc i) st'))))"
      by simp
    moreover from it Continue have "end_time st' = end_time st - DAY"
      by (simp add: iteration_Continue)
    moreover from it Continue have "requests evs = [(end_time st - DAY, end_time st)]"
      by (simp add: iteration_Continue_requests)
    ultimately show ?thesis
      using it Continue by (simp add: loop_Continue_events requests_append)
  next
    case Break
    with it iteration_requests_cases [of E p g i st] show ?thesis
      by (auto simp: loop_Break)
  next
    case (Raise e)
    with it iteration_requests_cases [of E p g i st] show ?thesis
      by (auto simp: loop_Raise)
  qed
qed

lemma chain_nth:
  "chain e ws \<Longrightarrow> i < length ws \<Longrightarrow> ws ! i = (e - (int i + 1) * DAY, e - int i * DAY)"
proof (induction ws arbitrary: e i)
  case Nil
  then show ?case by simp
next
  case (Cons w ws)
  obtain s e' where w: "w = (s, e')" by (cases w)
  with Cons.prems have c: "e' = e" "s = e - DAY" "chain s ws"
    by auto
  show ?case
  proof (cases i)
    case 0
    with w c show ?thesis by simp
  next
    case (Suc j)
    with Cons.prems have "j < length ws" by simp
    from Cons.IH [OF c(3) this] Suc c show ?thesis
      by (simp add: algebra_simps)
  qed
qed

lemma loop_after_stop:
  "STOP_DATE \<le> end_time st \<Longrightarrow>
     list_all (\<lambda>w. STOP_DATE \<le> snd w) (requests (snd (snd (loop E p g i st))))"
proof (induction E p g i st rule: loop.induct)
  case (1 E p g i st)
  obtain c st' evs where it: "iteration E p g i st = (c, st', evs)"
    by (cases "iteration E p g i st") auto
  with iteration_requests_cases [of E p g i st] "1.prems"
  have first: "list_all (\<lambda>w. STOP_DATE \<le> snd w) (requests evs)"
    by auto
  show ?case
  proof (cases c)
    case Continue
    with it have "STOP_DATE \<le> end_time st'"
      by (auto dest: iteration_Continue(2))
    from "1.IH" [OF it [symmetric] Continue refl this]
    have "list_all (\<lambda>w. STOP_DATE \<le> snd w) (requests (snd (snd (loop E p g (Suc i) st'))))"
      by simp
    with first it Continue show ?thesis
      by (simp add: loop_Continue_events requests_append)
  next
    case Break
    with it first show ?thesis by (simp add: loop_Break)
  next
    case (Raise e)
    with it first show ?thesis by (simp add: loop_Raise)
  qed
qed

lemma loop_tl_after_stop:
  "list_all (\<lambda>w. STOP_DATE \<le> snd w) (tl (requests (snd (snd (loop E p g i st)))))"
proof -
  obtain c st' evs where it: "iteration E p g i st = (c, st', evs)"
    by (cases "iteration E p g i st") auto
  show ?thesis
  proof (cases c)
    case Continue
    with it have "STOP_DATE \<le> end_time st'"
      by (auto dest: iteration_Continue(2))
    from loop_after_stop [OF this]
    have "list_all (\<lambda>w. STOP_DATE \<le> snd w) (requests (snd (snd (loop E p g (Suc i) st'))))" .
    moreover from it Continue have "requests evs = [(end_time st - DAY, end_time st)]"
      by (simp add: iteration_Continue_requests)
    ultimately show ?thesis
      using it Continue by (simp add: loop_Continue_events requests_append)
  next
    case Break
    with it iteration_requests_cases [of E p g i st] show ?thesis
      by (auto simp: loop_Break)
  next
    case (Raise e)
    with it iteration_requests_cases [of E p g i st] show ?thesis
      by (auto simp: loop_Raise)
  qed
qed

subsection \<open>The run\<close>

lemma handlers_events:
  "requests (snd (handlers r)) = []" "finalizations (snd (handlers r)) = 0"
  by (auto simp: handlers_def requests_def map_filter_def finalizations_def split: option.splits)

lemma handlers_not_Exception: "fst (handlers r) = Some e \<Longrightarrow> \<not> is_Exception e"
  by (auto simp: handlers_def split: option.splits if_splits)

lemma finalization_events:
  "requests (finalization f rows) = []" "finalizations (finalization f rows) = 1"
  by (auto simp: finalization_def requests_def map_filter_def finalizations_def)

lemma started_events:
  "requests (started E) = []" "finalizations (started E) = 0"
  by (simp_all add: started_def requests_def map_filter_def finalizations_def)

lemma run_events:
  "g \<in> set allowed_granularities \<Longrightarrow>
     snd (fetch_and_store_candles E p g) =
       started E @ snd (snd (loop E p g 0 (initial_vars E)))
       @ snd (handlers (fst (loop E p g 0 (initial_vars E))))
       @ finalization (generate_unique_csv_filename E)
           (candle_data (fst (snd (loop E p g 0 (initial_vars E)))))"
  by (simp add: fetch_and_store_candles_def started_def Let_def split: prod.splits)

lemma run_reach:
  assumes g: "g \<in> set allowed_granularities"
    and re: "reach E p g k 0 (initial_vars E) = Some (st, evs)"
    and lo: "loop E p g k st = (raised, st', evs')"
  shows "fetch_and_store_candles E p g =
           (fst (handlers raised),
            started E @ evs @ evs' @ snd (handlers raised)
              @ finalization (generate_unique_csv_filename E) (candle_data st'))"
  using g loop_reach [OF re] lo
  by (simp add: fetch_and_store_candles_def started_def Let_def split: prod.splits)

lemma run_requests:
  "requests (snd (fetch_and_store_candles E p g)) =
     (if g \<in> set allowed_granularities
      then requests (snd (snd (loop E p g 0 (initial_vars E)))) else [])"
proof (cases "g \<in> set allowed_granularities")
  case True
  then show ?thesis
    by (simp add: run_events requests_append handlers_events finalization_events
          started_events)
next
  case False
  then show ?thesis
    by (simp add: fetch_and_store_candles_def requests_def map_filter_def)
qed

lemma run_finalizations:
  "finalizations (snd (fetch_and_store_candles E p g)) =
     (if g \<in> set allowed_granularities then 1 else 0)"
proof (cases "g \<in> set allowed_granularities")
  case True
  then show ?thesis
    by (simp add: run_events finalizations_append handlers_events finalization_events
          started_events loop_finalizations)
next
  case False
  then show ?thesis
    by (simp add: fetch_and_store_candles_def finalizations_def)
qed

subsection \<open>The concrete runs\<close>

lemma initial_vars_2024:
  "initial_vars (scripted clock_2024 script) = \<lparr>end_time = 1710460800 * SECOND, candle_data = []\<rparr>"
  by (simp add: initial_vars_def scripted_def clock_2024_def replace_midnight_def DAY_def SECOND_def)

lemma valid_candles: "valid_timestamp (fst candle_a)" "valid_timestamp (fst candle_b)"
  by (simp_all add: candle_a_def candle_b_def valid_timestamp_def)

lemma reach_first_pass:
  "reach (scripted clock_2024 (ok_response [candle_a] # script)) ''BTC-USD'' 3600 1 0
       (initial_vars (scripted clock_2024 (ok_response [candle_a] # script)))
     = Some (after_first_pass, first_pass)"
proof -
  let ?E = "scripted clock_2024 (ok_response [candle_a] # script)"
  let ?st = "\<lparr>end_time = 1710460800 * SECOND, candle_data = []\<rparr>"
  have start: "minus_one_day (end_time ?st) = Inr (1710374400 * SECOND)"
    by (simp add: minus_one_day_def DAY_def SECOND_def DATETIME_MIN_def)
  have net: "network ?E 0 = Response 200 ''OK'' (Parsed (JArr (map json_of_candle [candle_a])))"
    by (simp add: scripted_def ok_response_def)
  have app: "append_candles ?E ''BTC-USD'' (map json_of_candle [candle_a]) (candle_data ?st)
      = (None, candle_data ?st @ map (record_of ''BTC-USD'') [candle_a])"
    by (rule append_candles_valid) (simp add: valid_candles)
  have "iteration ?E ''BTC-USD'' 3600 0 ?st = (Continue, after_first_pass, first_pass)"
    using iteration_candles_ok [OF start net _ app, of 3600]
    by (simp add: after_first_pass_def first_pass_def STOP_DATE_def SECOND_def)
  then show ?thesis
    by (simp add: initial_vars_2024)
qed

lemma start_second_pass:
  "minus_one_day (end_time after_first_pass) = Inr (1710288000 * SECOND)"
  by (simp add: after_first_pass_def minus_one_day_def DAY_def SECOND_def DATETIME_MIN_def)

lemma granularity_3600: "3600 \<in> set allowed_granularities"
  by (simp add: allowed_granularities_def)

lemma requests_2024:
  "requests (snd (fetch_and_store_candles
       (scripted clock_2024 [ok_response [candle_a], ok_response [candle_b]]) ''BTC-USD'' 3600))
     = [(1710374400 * SECOND, 1710460800 * SECOND),
        (1710288000 * SECOND, 1710374400 * SECOND),
        (1710201600 * SECOND, 1710288000 * SECOND)]"
  by code_simp

section \<open>Properties of a run\<close>

text \<open>
  Claim C1, as the code has it. A run with an allowed granularity reaches the
  finalization step exactly once, whatever the network does: a send failure, a
  status other than 200, a body that does not parse, an interruption, or any other
  exception of the loop. A run with any other granularity raises \<open>ValueError\<close>
  on line 22, before the \<^verbatim>\<open>try\<close> statement, and never reaches the finalization
  step: its only effect is the error line of line 20.
\<close>

theorem finalization_once_unless_invalid:
  "finalizations (snd (fetch_and_store_candles E product_id granularity)) =
     (if granularity \<in> set allowed_granularities then 1 else 0) \<and>
   (granularity \<notin> set allowed_granularities \<longrightarrow>
      fetch_and_store_candles E product_id granularity =
        (Some (ValueError (''Invalid granularity: '' @ str_int granularity)),
         [Log_invalid_granularity granularity]))"
  by (simp add: run_finalizations) (simp add: fetch_and_store_candles_def)

text \<open>
  The property at a run whose first request is answered with status 503, and at
  granularity 42.
\<close>

theorem finalization_once_unless_invalid_witness:
  "finalizations
     (snd (fetch_and_store_candles
        (scripted clock_2024 [Response 503 ''Service Unavailable'' Malformed]) ''BTC-USD'' 3600))
     = 1 \<and>
   42 \<notin> set allowed_granularities \<and>
   fetch_and_store_candles
        (scripted clock_2024 [Response 503 ''Service Unavailable'' Malformed]) ''BTC-USD'' 42
     = (Some (ValueError (''Invalid granularity: '' @ str_int 42)), [Log_invalid_granularity 42])"
  using finalization_once_unless_invalid
      [of "scripted clock_2024 [Response 503 ''Service Unavailable'' Malformed]" "''BTC-USD''" 3600]
    finalization_once_unless_invalid
      [of "scripted clock_2024 [Response 503 ''Service Unavailable'' Malformed]" "''BTC-USD''" 42]
  by (simp add: allowed_granularities_def)

text \<open>
  Claim C1 as stated fails: with granularity 42 the run raises \<open>ValueError\<close> and
  the finalization step is reached zero times, not once.
\<close>

theorem invalid_granularity_skips_finalization:
  "fst (fetch_and_store_candles (scripted clock_2024 []) ''BTC-USD'' 42)
     = Some (ValueError ''Invalid granularity: 42'') \<and>
   finalizations (snd (fetch_and_store_candles (scripted clock_2024 []) ''BTC-USD'' 42)) = 0"
  by code_simp

text \<open>
  Claim C2, as the code has it. When the first \<open>length css\<close> requests are answered
  with status 200 and the non-empty arrays of raw candles \<open>css\<close>, the next one with
  an empty array, and the day that lies \<open>length css\<close> days before the midnight of the
  start is not before the stopping date (so that the date check of line 107 lets the
  loop reach the empty array), the loop ends without an exception and the
  accumulation list is the concatenation of the records of the responses, in the
  order received, each response's candles in their order.
\<close>

theorem accumulates_scripted_responses:
  assumes "\<forall>i < length css. \<exists>reason.
        network E i = Response 200 reason (Parsed (JArr (map json_of_candle (css ! i))))"
    and "list_all (\<lambda>cs. cs \<noteq> [] \<and> list_all (\<lambda>c. valid_timestamp (fst c)) cs) css"
    and "\<exists>reason. network E (length css) = Response 200 reason (Parsed (JArr []))"
    and "STOP_DATE \<le> replace_midnight (utc_now E) - int (length css) * DAY"
  shows "fst (loop E product_id granularity 0 (initial_vars E)) = None \<and>
         candle_data (fst (snd (loop E product_id granularity 0 (initial_vars E))))
           = concat (map (map (record_of product_id)) css)"
proof -
  define st where "st = \<lparr>end_time = replace_midnight (utc_now E) - int (length css) * DAY,
    candle_data = concat (map (map (record_of product_id)) css)\<rparr>"
  from reach_script [OF assms(1,2,4), of "length css" product_id granularity]
  obtain evs where re: "reach E product_id granularity (length css) 0 (initial_vars E) = Some (st, evs)"
    by (auto simp: st_def)
  have day: "0 < DAY"
    by (simp add: DAY_def SECOND_def)
  with assms(4) have "STOP_DATE \<le> end_time st"
    by (simp add: st_def)
  then have "DATETIME_MIN \<le> end_time st - DAY"
    by (simp add: STOP_DATE_def DATETIME_MIN_def DAY_def SECOND_def)
  then have start: "minus_one_day (end_time st) = Inr (end_time st - DAY)"
    by (simp add: minus_one_day_def)
  from assms(3) obtain reason where
    "network E (length css) = Response 200 reason (Parsed (JArr []))" ..
  from iteration_falsy [OF start this, of product_id granularity]
  have "loop E product_id granularity (0 + length css) st =
      (None, st,
       [Log_fetching (end_time st - DAY) (end_time st),
        Request product_id (end_time st - DAY) (end_time st) granularity,
        Log_received 200 reason, Log_no_data])"
    by (simp add: loop_Break)
  with loop_reach [OF re] show ?thesis
    by (simp add: st_def)
qed

text \<open>The property at a run of 2024 with two non-empty responses of one candle each.\<close>

theorem accumulates_scripted_responses_witness:
  "network (scripted clock_2024 [ok_response [candle_a], ok_response [candle_b]]) 0
     = Response 200 ''OK'' (Parsed (JArr (map json_of_candle [candle_a]))) \<and>
   network (scripted clock_2024 [ok_response [candle_a], ok_response [candle_b]]) 1
     = Response 200 ''OK'' (Parsed (JArr (map json_of_candle [candle_b]))) \<and>
   network (scripted clock_2024 [ok_response [candle_a], ok_response [candle_b]]) 2
     = Response 200 ''OK'' (Parsed (JArr [])) \<and>
   STOP_DATE \<le> replace_midnight
       (utc_now (scripted clock_2024 [ok_response [candle_a], ok_response [candle_b]]))
     - int (length [[candle_a], [candle_b]]) * DAY \<and>
   fst (loop (scripted clock_2024 [ok_response [candle_a], ok_response [candle_b]])
          ''BTC-USD'' 3600 0
          (initial_vars (scripted clock_2024 [ok_response [candle_a], ok_response [candle_b]])))
     = None \<and>
   candle_data (fst (snd
       (loop (scripted clock_2024 [ok_response [candle_a], ok_response [candle_b]])
          ''BTC-USD'' 3600 0
          (initial_vars (scripted clock_2024 [ok_response [candle_a], ok_response [candle_b]])))))
     = [record_of ''BTC-USD'' candle_a, record_of ''BTC-USD'' candle_b]"
proof -
  let ?E = "scripted clock_2024 [ok_response [candle_a], ok_response [candle_b]]"
  let ?css = "[[candle_a], [candle_b]]"
  have n0: "network ?E 0 = Response 200 ''OK'' (Parsed (JArr (map json_of_candle [candle_a])))"
    and n1: "network ?E 1 = Response 200 ''OK'' (Parsed (JArr (map json_of_candle [candle_b])))"
    and n2: "network ?E 2 = Response 200 ''OK'' (Parsed (JArr []))"
    by (simp_all add: scripted_def ok_response_def)
  have script: "\<forall>i < length ?css. \<exists>reason.
      network ?E i = Response 200 reason (Parsed (JArr (map json_of_candle (?css ! i))))"
  proof (intro allI impI)
    fix i assume "i < length ?css"
    then have "i = 0 \<or> i = 1"
      by auto
    with n0 n1
    show "\<exists>reason. network ?E i = Response 200 reason (Parsed (JArr (map json_of_candle (?css ! i))))"
      by auto
  qed
  have valid: "list_all (\<lambda>cs. cs \<noteq> [] \<and> list_all (\<lambda>c. valid_timestamp (fst c)) cs) ?css"
    by (simp add: valid_candles)
  have empty: "\<exists>reason. network ?E (length ?css) = Response 200 reason (Parsed (JArr []))"
    by (simp add: scripted_def)
  have stop: "STOP_DATE \<le> replace_midnight (utc_now ?E) - int (length ?css) * DAY"
    by (simp add: scripted_def clock_2024_def replace_midnight_def STOP_DATE_def DAY_def SECOND_def)
  from accumulates_scripted_responses [OF script valid empty stop, of "''BTC-USD''" 3600]
    n0 n1 n2 stop
  show ?thesis
    by simp
qed

text \<open>
  Claim C2 as stated fails for a script longer than the days left before the
  stopping date: a run started on 2015-07-20 with the responses [candle_c],
  [candle_d], [] requests the window that ends on 2015-07-20, moves to 2015-07-19,
  which is before the stopping date, and stops. The second response is never
  requested and the accumulation list holds the record of \<open>candle_c\<close> only.
\<close>

theorem stop_date_cuts_script:
  "network (scripted (1437388200 * SECOND) [ok_response [candle_c], ok_response [candle_d]]) 0
     = ok_response [candle_c] \<and>
   network (scripted (1437388200 * SECOND) [ok_response [candle_c], ok_response [candle_d]]) 1
     = ok_response [candle_d] \<and>
   network (scripted (1437388200 * SECOND) [ok_response [candle_c], ok_response [candle_d]]) 2
     = Response 200 ''OK'' (Parsed (JArr [])) \<and>
   fst (loop (scripted (1437388200 * SECOND) [ok_response [candle_c], ok_response [candle_d]])
          ''BTC-USD'' 3600 0
          (initial_vars
             (scripted (1437388200 * SECOND) [ok_response [candle_c], ok_response [candle_d]])))
     = None \<and>
   candle_data (fst (snd
       (loop (scripted (1437388200 * SECOND) [ok_response [candle_c], ok_response [candle_d]])
          ''BTC-USD'' 3600 0
          (initial_vars
             (scripted (1437388200 * SECOND) [ok_response [candle_c], ok_response [candle_d]])))))
     = [record_of ''BTC-USD'' candle_c] \<and>
   [record_of ''BTC-USD'' candle_c]
     \<noteq> concat (map (map (record_of ''BTC-USD'')) [[candle_c], [candle_d]])"
  by code_simp

text \<open>
  Claim C3. The allowed granularities are 60, 300, 900, 3600, 21600 and 86400. With
  one of them the run does not raise the \<open>ValueError\<close> of the validation, logs the
  two lines that precede the loop and then runs the first pass of the loop from the
  initial variables. With any other integer the run raises the \<open>ValueError\<close> with
  no effect but the error line: no request, no file, no other line.
\<close>

theorem granularity_validation:
  "set allowed_granularities = {60, 300, 900, 3600, 21600, 86400} \<and>
   (granularity \<in> set allowed_granularities \<longrightarrow>
      fst (fetch_and_store_candles E product_id granularity)
        \<noteq> Some (ValueError (''Invalid granularity: '' @ str_int granularity)) \<and>
      (\<exists>rest. snd (fetch_and_store_candles E product_id granularity) =
         started E @ snd (snd (iteration E product_id granularity 0 (initial_vars E))) @ rest)) \<and>
   (granularity \<notin> set allowed_granularities \<longrightarrow>
      fetch_and_store_candles E product_id granularity =
        (Some (ValueError (''Invalid granularity: '' @ str_int granularity)),
         [Log_invalid_granularity granularity]))"
proof (intro conjI impI)
  show "set allowed_granularities = {60, 300, 900, 3600, 21600, 86400}"
    by (simp add: allowed_granularities_def)
next
  assume g: "granularity \<in> set allowed_granularities"
  then have run: "fst (fetch_and_store_candles E product_id granularity) =
      fst (handlers (fst (loop E product_id granularity 0 (initial_vars E))))"
    by (simp add: fetch_and_store_candles_def Let_def split: prod.splits)
  have "fst (handlers r) \<noteq> Some (ValueError m)" for r m
  proof
    assume "fst (handlers r) = Some (ValueError m)"
    then have "\<not> is_Exception (ValueError m)"
      by (rule handlers_not_Exception)
    then show False
      by simp
  qed
  then show "fst (fetch_and_store_candles E product_id granularity)
        \<noteq> Some (ValueError (''Invalid granularity: '' @ str_int granularity))"
    unfolding run .
  from loop_first_pass [of E product_id granularity 0 "initial_vars E"] obtain rest where
    "snd (snd (loop E product_id granularity 0 (initial_vars E))) =
       snd (snd (iteration E product_id granularity 0 (initial_vars E))) @ rest" ..
  with g show "\<exists>rest. snd (fetch_and_store_candles E product_id granularity) =
         started E @ snd (snd (iteration E product_id granularity 0 (initial_vars E))) @ rest"
    by (simp add: run_events)
next
  assume "granularity \<notin> set allowed_granularities"
  then show "fetch_and_store_candles E product_id granularity =
        (Some (ValueError (''Invalid granularity: '' @ str_int granularity)),
         [Log_invalid_granularity granularity])"
    by (simp add: fetch_and_store_candles_def)
qed

text \<open>The property at granularity 3600 and at granularity 42.\<close>

theorem granularity_validation_witness:
  "3600 \<in> set allowed_granularities \<and>
   fst (fetch_and_store_candles (scripted clock_2024 []) ''BTC-USD'' 3600)
     \<noteq> Some (ValueError (''Invalid granularity: '' @ str_int 3600)) \<and>
   (\<exists>rest. snd (fetch_and_store_candles (scripted clock_2024 []) ''BTC-USD'' 3600) =
      started (scripted clock_2024 [])
      @ snd (snd (iteration (scripted clock_2024 []) ''BTC-USD'' 3600 0
                    (initial_vars (scripted clock_2024 []))))
      @ rest) \<and>
   42 \<notin> set allowed_granularities \<and>
   fetch_and_store_candles (scripted clock_2024 []) ''BTC-USD'' 42
     = (Some (ValueError (''Invalid granularity: '' @ str_int 42)), [Log_invalid_granularity 42])"
  using granularity_validation [of 3600 "scripted clock_2024 []" "''BTC-USD''"]
    granularity_validation [of 42 "scripted clock_2024 []" "''BTC-USD''"]
  by (simp add: allowed_granularities_def)

text \<open>
  Claim C4, as the code has it. In every run, every request after the first is for a
  window whose end is not before 2015-07-20T00:00:00Z: after the cursor has moved
  back one day, the loop stops before the next request when the new end is before
  that date. The first request, for the window that ends at the midnight of the
  start, is sent without that check; so when the run starts on or after
  2015-07-20, no request at all is for a window that ends before that date.
\<close>

theorem requests_after_first_not_before_stop_date:
  "list_all (\<lambda>w. STOP_DATE \<le> snd w)
     (tl (requests (snd (fetch_and_store_candles E product_id granularity)))) \<and>
   (STOP_DATE \<le> replace_midnight (utc_now E) \<longrightarrow>
      list_all (\<lambda>w. STOP_DATE \<le> snd w)
        (requests (snd (fetch_and_store_candles E product_id granularity))))"
  using loop_after_stop [of "initial_vars E" E product_id granularity 0]
  by (simp add: run_requests loop_tl_after_stop) (simp add: initial_vars_def)

text \<open>The property at a run of 2024 that sends three requests.\<close>

theorem requests_after_first_not_before_stop_date_witness:
  "STOP_DATE \<le> replace_midnight
       (utc_now (scripted clock_2024 [ok_response [candle_a], ok_response [candle_b]])) \<and>
   list_all (\<lambda>w. STOP_DATE \<le> snd w)
     (requests (snd (fetch_and_store_candles
        (scripted clock_2024 [ok_response [candle_a], ok_response [candle_b]]) ''BTC-USD'' 3600))) \<and>
   length (requests (snd (fetch_and_store_candles
        (scripted clock_2024 [ok_response [candle_a], ok_response [candle_b]]) ''BTC-USD'' 3600)))
     = 3"
proof -
  have "STOP_DATE \<le> replace_midnight
       (utc_now (scripted clock_2024 [ok_response [candle_a], ok_response [candle_b]]))"
    by (simp add: scripted_def clock_2024_def replace_midnight_def STOP_DATE_def DAY_def SECOND_def)
  with requests_after_first_not_before_stop_date
    [of "scripted clock_2024 [ok_response [candle_a], ok_response [candle_b]]" "''BTC-USD''" 3600]
  show ?thesis
    by (simp add: requests_2024)
qed

text \<open>
  Claim C4 as stated fails for a run started before the stopping date: started on
  2015-07-19 at 10:30 UTC, the run requests the window from 2015-07-18 to
  2015-07-19, whose end is before 2015-07-20.
\<close>

theorem first_request_before_stop_date:
  "requests (snd (fetch_and_store_candles (scripted (1437301800 * SECOND) []) ''BTC-USD'' 3600))
     = [(1437177600 * SECOND, 1437264000 * SECOND)] \<and>
   1437264000 * SECOND < STOP_DATE"
  by code_simp

text \<open>
  Claim C5. The windows requested in a run, in order: the first one ends at the
  start instant truncated to midnight UTC; every window starts 24 hours before its
  end; and each next window ends where the one before it starts, which is strictly
  earlier than the end of the one before it.
\<close>

theorem windows_contiguous:
  "(requests (snd (fetch_and_store_candles E product_id granularity)) \<noteq> [] \<longrightarrow>
      snd (requests (snd (fetch_and_store_candles E product_id granularity)) ! 0)
        = replace_midnight (utc_now E)) \<and>
   (\<forall>i < length (requests (snd (fetch_and_store_candles E product_id granularity))).
      fst (requests (snd (fetch_and_store_candles E product_id granularity)) ! i)
        = snd (requests (snd (fetch_and_store_candles E product_id granularity)) ! i) - DAY) \<and>
   (\<forall>i. Suc i < length (requests (snd (fetch_and_store_candles E product_id granularity))) \<longrightarrow>
      snd (requests (snd (fetch_and_store_candles E product_id granularity)) ! Suc i)
        = fst (requests (snd (fetch_and_store_candles E product_id granularity)) ! i) \<and>
      snd (requests (snd (fetch_and_store_candles E product_id granularity)) ! Suc i)
        < snd (requests (snd (fetch_and_store_candles E product_id granularity)) ! i))"
proof -
  define ws where "ws = requests (snd (fetch_and_store_candles E product_id granularity))"
  define e0 where "e0 = replace_midnight (utc_now E)"
  have "chain e0 ws"
    using loop_chain [of "initial_vars E" E product_id granularity 0]
    by (simp add: ws_def e0_def run_requests initial_vars_def)
  then have nth: "ws ! i = (e0 - (int i + 1) * DAY, e0 - int i * DAY)" if "i < length ws" for i
    using that by (rule chain_nth)
  have day: "0 < DAY"
    by (simp add: DAY_def SECOND_def)
  have "ws \<noteq> [] \<longrightarrow> snd (ws ! 0) = e0"
    using nth [of 0] by auto
  moreover have "\<forall>i < length ws. fst (ws ! i) = snd (ws ! i) - DAY"
    using nth by (simp add: algebra_simps)
  moreover have "\<forall>i. Suc i < length ws \<longrightarrow>
      snd (ws ! Suc i) = fst (ws ! i) \<and> snd (ws ! Suc i) < snd (ws ! i)"
  proof (intro allI impI)
    fix i assume "Suc i < length ws"
    with nth [of i] nth [of "Suc i"] day
    show "snd (ws ! Suc i) = fst (ws ! i) \<and> snd (ws ! Suc i) < snd (ws ! i)"
      by (simp add: algebra_simps)
  qed
  ultimately show ?thesis
    unfolding ws_def e0_def by blast
qed

text \<open>The property at a run of 2024 that sends three requests.\<close>

theorem windows_contiguous_witness:
  "requests (snd (fetch_and_store_candles
       (scripted clock_2024 [ok_response [candle_a], ok_response [candle_b]]) ''BTC-USD'' 3600))
     = [(1710374400 * SECOND, 1710460800 * SECOND),
        (1710288000 * SECOND, 1710374400 * SECOND),
        (1710201600 * SECOND, 1710288000 * SECOND)] \<and>
   replace_midnight (utc_now (scripted clock_2024 [ok_response [candle_a], ok_response [candle_b]]))
     = 1710460800 * SECOND \<and>
   1710374400 * SECOND = 1710460800 * SECOND - DAY \<and>
   1710288000 * SECOND = 1710374400 * SECOND - DAY \<and>
   1710201600 * SECOND = 1710288000 * SECOND - DAY \<and>
   1710374400 * SECOND < 1710460800 * SECOND \<and>
   1710288000 * SECOND < 1710374400 * SECOND"
proof -
  let ?ws = "requests (snd (fetch_and_store_candles
       (scripted clock_2024 [ok_response [candle_a], ok_response [candle_b]]) ''BTC-USD'' 3600))"
  note w = windows_contiguous
    [of "scripted clock_2024 [ok_response [candle_a], ok_response [candle_b]]" "''BTC-USD''" 3600]
  from w have first: "?ws \<noteq> [] \<longrightarrow> snd (?ws ! 0) = replace_midnight
      (utc_now (scripted clock_2024 [ok_response [candle_a], ok_response [candle_b]]))"
    by blast
  from w have day: "\<forall>i < length ?ws. fst (?ws ! i) = snd (?ws ! i) - DAY"
    by blast
  from w have next_window: "\<forall>i. Suc i < length ?ws \<longrightarrow>
      snd (?ws ! Suc i) = fst (?ws ! i) \<and> snd (?ws ! Suc i) < snd (?ws ! i)"
    by blast
  from first have "replace_midnight
      (utc_now (scripted clock_2024 [ok_response [candle_a], ok_response [candle_b]]))
        = 1710460800 * SECOND"
    by (simp add: requests_2024)
  moreover have "fst (?ws ! 0) = snd (?ws ! 0) - DAY"
    using day [rule_format, of 0] by (simp add: requests_2024)
  moreover have "fst (?ws ! 1) = snd (?ws ! 1) - DAY"
    using day [rule_format, of 1] by (simp add: requests_2024)
  moreover have "fst (?ws ! 2) = snd (?ws ! 2) - DAY"
    using day [rule_format, of 2] by (simp add: requests_2024)
  moreover have "snd (?ws ! Suc 0) < snd (?ws ! 0)"
    using next_window [rule_format, of 0] by (simp add: requests_2024)
  moreover have "snd (?ws ! Suc 1) < snd (?ws ! 1)"
    using next_window [rule_format, of 1] by (simp add: requests_2024)
  ultimately show ?thesis
    by (simp add: requests_2024)
qed

text \<open>
  Claim C6. For every raw candle \<open>[t, low, high, open, close, volume]\<close> whose \<open>t\<close> is
  an integer number of epoch seconds in the range of datetimes, and every pair, the
  record built has Exchange "Coinbase", the pair verbatim, the ISO-8601 UTC rendering
  of \<open>t\<close> as Close Timestamp, and Low, High, Open, Close, Volume from positions 1 to 5.
  The candle \<open>[1609459200, 29000, 29500, 29200, 29400, 123.4]\<close> for BTC-USD gives the
  Close Timestamp 2021-01-01T00:00:00+00:00.
\<close>

theorem make_record_fields:
  "(valid_timestamp t \<longrightarrow>
      make_record E pair (JArr [JInt t, lo, hi, op, cl, vol]) =
        Inr \<lparr>Exchange = ''Coinbase'', Pair = pair, Close_Timestamp = isoformat (t * SECOND),
             Low = lo, High = hi, Open = op, Close = cl, Volume = vol\<rparr>) \<and>
   make_record E ''BTC-USD''
       (JArr [JInt 1609459200, JInt 29000, JInt 29500, JInt 29200, JInt 29400,
              JFloat (PyFloat ''123.4'')]) =
     Inr \<lparr>Exchange = ''Coinbase'', Pair = ''BTC-USD'',
          Close_Timestamp = ''2021-01-01T00:00:00+00:00'',
          Low = JInt 29000, High = JInt 29500, Open = JInt 29200, Close = JInt 29400,
          Volume = JFloat (PyFloat ''123.4'')\<rparr>"
proof -
  have general: "make_record E p (JArr [JInt s, a, b, c, d, v]) =
      Inr \<lparr>Exchange = ''Coinbase'', Pair = p, Close_Timestamp = isoformat (s * SECOND),
           Low = a, High = b, Open = c, Close = d, Volume = v\<rparr>"
    if "valid_timestamp s" for p s a b c d v
    using make_record_json_of_candle [of "(s, a, b, c, d, v)" E p] that by simp
  have "valid_timestamp 1609459200"
    by (simp add: valid_timestamp_def)
  from general [OF this] isoformat_2021 general show ?thesis
    by simp
qed

text \<open>The property at another candle and pair.\<close>

theorem make_record_fields_witness:
  "valid_timestamp 1437346800 \<and>
   make_record (scripted clock_2024 []) ''ETH-EUR''
       (JArr [JInt 1437346800, JInt 1, JFloat (PyFloat ''2.5''), JInt 3, JInt 4, JInt 5]) =
     Inr \<lparr>Exchange = ''Coinbase'', Pair = ''ETH-EUR'',
          Close_Timestamp = isoformat (1437346800 * SECOND),
          Low = JInt 1, High = JFloat (PyFloat ''2.5''), Open = JInt 3, Close = JInt 4,
          Volume = JInt 5\<rparr>"
proof -
  have v: "valid_timestamp 1437346800"
    by (simp add: valid_timestamp_def)
  with make_record_fields [of 1437346800 "scripted clock_2024 []" "''ETH-EUR''" "JInt 1"
      "JFloat (PyFloat ''2.5'')" "JInt 3" "JInt 4" "JInt 5"]
  show ?thesis
    by blast
qed

text \<open>
  Claim C7. When the loop reaches its pass \<open>k\<close> with the variables \<open>st\<close>, the
  request of that pass is sent and its response has a status other than 200, the run
  sends no further request: the exception of line 73 leaves the loop, the handler of
  line 111 logs it, the finalization step runs on the records accumulated before
  that pass, and the run returns. When this happens on the first request (\<open>k = 0\<close>)
  no record is accumulated and the finalization step writes no file.
\<close>

theorem non_200_aborts_and_finalizes:
  assumes "granularity \<in> set allowed_granularities"
    and "reach E product_id granularity k 0 (initial_vars E) = Some (st, evs)"
    and "minus_one_day (end_time st) = Inr start_time"
    and "network E k = Response status reason response_body"
    and "status \<noteq> 200"
  shows "fetch_and_store_candles E product_id granularity =
           (None,
            started E @ evs
            @ [Log_fetching start_time (end_time st),
               Request product_id start_time (end_time st) granularity,
               Log_received status reason,
               Log_error_fetching
                 (Exception (''Error fetching data: '' @ str_int status @ '' '' @ reason))]
            @ finalization (generate_unique_csv_filename E) (candle_data st)) \<and>
         (k = 0 \<longrightarrow>
            candle_data st = [] \<and>
            finalization (generate_unique_csv_filename E) (candle_data st)
              = [Log_no_data_to_write])"
proof -
  from assms(3-5) have "loop E product_id granularity k st =
      (Some (Exception (''Error fetching data: '' @ str_int status @ '' '' @ reason)), st,
       [Log_fetching start_time (end_time st),
        Request product_id start_time (end_time st) granularity,
        Log_received status reason])"
    by (simp add: loop_Raise iteration_not_200)
  from run_reach [OF assms(1,2) this] have run: "fetch_and_store_candles E product_id granularity =
           (None,
            started E @ evs
            @ [Log_fetching start_time (end_time st),
               Request product_id start_time (end_time st) granularity,
               Log_received status reason,
               Log_error_fetching
                 (Exception (''Error fetching data: '' @ str_int status @ '' '' @ reason))]
            @ finalization (generate_unique_csv_filename E) (candle_data st))"
    by (simp add: handlers_def)
  have "candle_data st = [] \<and>
      finalization (generate_unique_csv_filename E) (candle_data st) = [Log_no_data_to_write]"
    if "k = 0"
    using that assms(2) by (auto simp: initial_vars_def finalization_def)
  with run show ?thesis
    by blast
qed

text \<open>
  The property at a run whose second request is answered with status 404, after one
  record was accumulated, and at a run whose first request is answered with status
  503.
\<close>

theorem non_200_aborts_and_finalizes_witness:
  "fetch_and_store_candles
       (scripted clock_2024 [ok_response [candle_a], Response 404 ''Not Found'' Malformed])
       ''BTC-USD'' 3600 =
     (None,
      started (scripted clock_2024 [ok_response [candle_a], Response 404 ''Not Found'' Malformed])
      @ first_pass
      @ [Log_fetching (1710288000 * SECOND) (end_time after_first_pass),
         Request ''BTC-USD'' (1710288000 * SECOND) (end_time after_first_pass) 3600,
         Log_received 404 ''Not Found'',
         Log_error_fetching (Exception (''Error fetching data: '' @ str_int 404 @ '' '' @ ''Not Found''))]
      @ finalization
          (generate_unique_csv_filename
             (scripted clock_2024 [ok_response [candle_a], Response 404 ''Not Found'' Malformed]))
          (candle_data after_first_pass)) \<and>
   candle_data after_first_pass = [record_of ''BTC-USD'' candle_a] \<and>
   fetch_and_store_candles (scripted clock_2024 [Response 503 ''Service Unavailable'' Malformed])
       ''BTC-USD'' 3600 =
     (None,
      started (scripted clock_2024 [Response 503 ''Service Unavailable'' Malformed])
      @ []
      @ [Log_fetching (1710374400 * SECOND) (1710460800 * SECOND),
         Request ''BTC-USD'' (1710374400 * SECOND) (1710460800 * SECOND) 3600,
         Log_received 503 ''Service Unavailable'',
         Log_error_fetching
           (Exception (''Error fetching data: '' @ str_int 503 @ '' '' @ ''Service Unavailable''))]
      @ [Log_no_data_to_write])"
proof -
  let ?E = "scripted clock_2024 [ok_response [candle_a], Response 404 ''Not Found'' Malformed]"
  let ?F = "scripted clock_2024 [Response 503 ''Service Unavailable'' Malformed]"
  have net: "network ?E 1 = Response 404 ''Not Found'' Malformed"
    by (simp add: scripted_def)
  have first: "fetch_and_store_candles ?E ''BTC-USD'' 3600 =
     (None,
      started ?E @ first_pass
      @ [Log_fetching (1710288000 * SECOND) (end_time after_first_pass),
         Request ''BTC-USD'' (1710288000 * SECOND) (end_time after_first_pass) 3600,
         Log_received 404 ''Not Found'',
         Log_error_fetching (Exception (''Error fetching data: '' @ str_int 404 @ '' '' @ ''Not Found''))]
      @ finalization (generate_unique_csv_filename ?E) (candle_data after_first_pass))"
    using non_200_aborts_and_finalizes [OF granularity_3600 reach_first_pass start_second_pass net]
    by simp
  have reach0: "reach ?F ''BTC-USD'' 3600 0 0 (initial_vars ?F) = Some (initial_vars ?F, [])"
    by simp
  have start0: "minus_one_day (end_time (initial_vars ?F)) = Inr (1710374400 * SECOND)"
    by (simp add: initial_vars_2024 minus_one_day_def DAY_def SECOND_def DATETIME_MIN_def)
  have net0: "network ?F 0 = Response 503 ''Service Unavailable'' Malformed"
    by (simp add: scripted_def)
  have second: "fetch_and_store_candles ?F ''BTC-USD'' 3600 =
     (None,
      started ?F @ []
      @ [Log_fetching (1710374400 * SECOND) (1710460800 * SECOND),
         Request ''BTC-USD'' (1710374400 * SECOND) (1710460800 * SECOND) 3600,
         Log_received 503 ''Service Unavailable'',
         Log_error_fetching
           (Exception (''Error fetching data: '' @ str_int 503 @ '' '' @ ''Service Unavailable''))]
      @ [Log_no_data_to_write])"
    using non_200_aborts_and_finalizes [OF granularity_3600 reach0 start0 net0]
    by (simp add: initial_vars_2024)
  from first second show ?thesis
    by (simp add: after_first_pass_def)
qed

text \<open>
  Claim C8, as the code has it. When the loop reaches its pass \<open>k\<close> with the
  variables \<open>st\<close> and the body of the response (status 200) does not parse as JSON,
  the failure is logged (line 79), the loop ends without an exception, no handler of
  the outer \<^verbatim>\<open>try\<close> runs, and the finalization step runs on the records
  accumulated so far.
\<close>

theorem malformed_body_breaks_loop:
  assumes "granularity \<in> set allowed_granularities"
    and "reach E product_id granularity k 0 (initial_vars E) = Some (st, evs)"
    and "minus_one_day (end_time st) = Inr start_time"
    and "network E k = Response 200 reason Malformed"
  shows "fetch_and_store_candles E product_id granularity =
           (None,
            started E @ evs
            @ [Log_fetching start_time (end_time st),
               Request product_id start_time (end_time st) granularity,
               Log_received 200 reason,
               Log_json_error]
            @ finalization (generate_unique_csv_filename E) (candle_data st))"
proof -
  from assms(3,4) have "loop E product_id granularity k st =
      (None, st,
       [Log_fetching start_time (end_time st),
        Request product_id start_time (end_time st) granularity,
        Log_received 200 reason, Log_json_error])"
    by (simp add: loop_Break iteration_Malformed)
  from run_reach [OF assms(1,2) this] show ?thesis
    by (simp add: handlers_def)
qed

text \<open>
  The property at a run whose second response does not parse, after one record was
  accumulated.
\<close>

theorem malformed_body_breaks_loop_witness:
  "reach (scripted clock_2024 [ok_response [candle_a], Response 200 ''OK'' Malformed])
       ''BTC-USD'' 3600 1 0
       (initial_vars (scripted clock_2024 [ok_response [candle_a], Response 200 ''OK'' Malformed]))
     = Some (after_first_pass, first_pass) \<and>
   network (scripted clock_2024 [ok_response [candle_a], Response 200 ''OK'' Malformed]) 1
     = Response 200 ''OK'' Malformed \<and>
   fetch_and_store_candles
       (scripted clock_2024 [ok_response [candle_a], Response 200 ''OK'' Malformed])
       ''BTC-USD'' 3600 =
     (None,
      started (scripted clock_2024 [ok_response [candle_a], Response 200 ''OK'' Malformed])
      @ first_pass
      @ [Log_fetching (1710288000 * SECOND) (end_time after_first_pass),
         Request ''BTC-USD'' (1710288000 * SECOND) (end_time after_first_pass) 3600,
         Log_received 200 ''OK'',
         Log_json_error]
      @ finalization
          (generate_unique_csv_filename
             (scripted clock_2024 [ok_response [candle_a], Response 200 ''OK'' Malformed]))
          (candle_data after_first_pass)) \<and>
   candle_data after_first_pass = [record_of ''BTC-USD'' candle_a]"
proof -
  let ?E = "scripted clock_2024 [ok_response [candle_a], Response 200 ''OK'' Malformed]"
  have net: "network ?E 1 = Response 200 ''OK'' Malformed"
    by (simp add: scripted_def)
  from malformed_body_breaks_loop [OF granularity_3600 reach_first_pass start_second_pass net]
    reach_first_pass [of "[Response 200 ''OK'' Malformed]"] net
  show ?thesis
    by (simp add: after_first_pass_def)
qed

text \<open>
  Claim C8 as stated fails for a body that parses as JSON and is not an array of
  6-element arrays: for the body \<open>[[1710457200, 275, 280]]\<close> the subscript
  \<^verbatim>\<open>candle[3]\<close> raises \<open>IndexError\<close>, which leaves the loop and is logged by the
  handler of line 111; line 79 is not reached.
\<close>

theorem short_candle_reaches_run_handler:
  "network (scripted clock_2024
       [Response 200 ''OK'' (Parsed (JArr [JArr [JInt 1710457200, JInt 275, JInt 280]]))]) 0
     = Response 200 ''OK'' (Parsed (JArr [JArr [JInt 1710457200, JInt 275, JInt 280]])) \<and>
   fst (loop (scripted clock_2024
          [Response 200 ''OK'' (Parsed (JArr [JArr [JInt 1710457200, JInt 275, JInt 280]]))])
        ''BTC-USD'' 3600 0
        (initial_vars (scripted clock_2024
          [Response 200 ''OK'' (Parsed (JArr [JArr [JInt 1710457200, JInt 275, JInt 280]]))])))
     = Some IndexError \<and>
   fetch_and_store_candles (scripted clock_2024
       [Response 200 ''OK'' (Parsed (JArr [JArr [JInt 1710457200, JInt 275, JInt 280]]))])
       ''BTC-USD'' 3600
     = (None,
        [Log_csv_filename ''hourly_candles_20240315_123000.csv'',
         Log_starting (1710460800 * SECOND),
         Log_fetching (1710374400 * SECOND) (1710460800 * SECOND),
         Request ''BTC-USD'' (1710374400 * SECOND) (1710460800 * SECOND) 3600,
         Log_received 200 ''OK'',
         Log_error_fetching IndexError,
         Log_no_data_to_write])"
  by code_simp

text \<open>
  Claim C9. When the loop reaches its pass \<open>k\<close> with the variables \<open>st\<close> and
  \<open>KeyboardInterrupt\<close> is raised while the request is sent or while the body is
  read, neither the handler of line 64 nor the handler of line 111 logs anything:
  the handler of line 114 logs the interruption, the finalization step runs on the
  records accumulated so far, and the run returns without raising.
\<close>

theorem keyboard_interrupt_swallowed:
  assumes "granularity \<in> set allowed_granularities"
    and "reach E product_id granularity k 0 (initial_vars E) = Some (st, evs)"
    and "minus_one_day (end_time st) = Inr start_time"
  shows "(network E k = SendRaises KeyboardInterrupt \<longrightarrow>
            fetch_and_store_candles E product_id granularity =
              (None,
               started E @ evs
               @ [Log_fetching start_time (end_time st),
                  Request product_id start_time (end_time st) granularity,
                  Log_keyboard_interrupt]
               @ finalization (generate_unique_csv_filename E) (candle_data st))) \<and>
         (network E k = ReadRaises status reason KeyboardInterrupt \<longrightarrow>
            fetch_and_store_candles E product_id granularity =
              (None,
               started E @ evs
               @ [Log_fetching start_time (end_time st),
                  Request product_id start_time (end_time st) granularity,
                  Log_received status reason,
                  Log_keyboard_interrupt]
               @ finalization (generate_unique_csv_filename E) (candle_data st)))"
proof (intro conjI impI)
  assume "network E k = SendRaises KeyboardInterrupt"
  with assms(3) have "loop E product_id granularity k st =
      (Some KeyboardInterrupt, st,
       [Log_fetching start_time (end_time st),
        Request product_id start_time (end_time st) granularity])"
    by (simp add: loop_Raise iteration_SendRaises)
  from run_reach [OF assms(1,2) this]
  show "fetch_and_store_candles E product_id granularity =
              (None,
               started E @ evs
               @ [Log_fetching start_time (end_time st),
                  Request product_id start_time (end_time st) granularity,
                  Log_keyboard_interrupt]
               @ finalization (generate_unique_csv_filename E) (candle_data st))"
    by (simp add: handlers_def)
next
  assume "network E k = ReadRaises status reason KeyboardInterrupt"
  with assms(3) have "loop E product_id granularity k st =
      (Some KeyboardInterrupt, st,
       [Log_fetching start_time (end_time st),
        Request product_id start_time (end_time st) granularity,
        Log_received status reason])"
    by (simp add: loop_Raise iteration_ReadRaises)
  from run_reach [OF assms(1,2) this]
  show "fetch_and_store_candles E product_id granularity =
              (None,
               started E @ evs
               @ [Log_fetching start_time (end_time st),
                  Request product_id start_time (end_time st) granularity,
                  Log_received status reason,
                  Log_keyboard_interrupt]
               @ finalization (generate_unique_csv_filename E) (candle_data st))"
    by (simp add: handlers_def)
qed

text \<open>
  The property at two runs interrupted in their second pass, one while sending and
  one while reading, after one record was accumulated: the file is written with
  that record.
\<close>

theorem keyboard_interrupt_swallowed_witness:
  "network (scripted clock_2024 [ok_response [candle_a], SendRaises KeyboardInterrupt]) 1
     = SendRaises KeyboardInterrupt \<and>
   fetch_and_store_candles
       (scripted clock_2024 [ok_response [candle_a], SendRaises KeyboardInterrupt])
       ''BTC-USD'' 3600 =
     (None,
      started (scripted clock_2024 [ok_response [candle_a], SendRaises KeyboardInterrupt])
      @ first_pass
      @ [Log_fetching (1710288000 * SECOND) (end_time after_first_pass),
         Request ''BTC-USD'' (1710288000 * SECOND) (end_time after_first_pass) 3600,
         Log_keyboard_interrupt]
      @ finalization
          (generate_unique_csv_filename
             (scripted clock_2024 [ok_response [candle_a], SendRaises KeyboardInterrupt]))
          (candle_data after_first_pass)) \<and>
   network (scripted clock_2024 [ok_response [candle_a], ReadRaises 200 ''OK'' KeyboardInterrupt]) 1
     = ReadRaises 200 ''OK'' KeyboardInterrupt \<and>
   fetch_and_store_candles
       (scripted clock_2024 [ok_response [candle_a], ReadRaises 200 ''OK'' KeyboardInterrupt])
       ''BTC-USD'' 3600 =
     (None,
      started (scripted clock_2024 [ok_response [candle_a], ReadRaises 200 ''OK'' KeyboardInterrupt])
      @ first_pass
      @ [Log_fetching (1710288000 * SECOND) (end_time after_first_pass),
         Request ''BTC-USD'' (1710288000 * SECOND) (end_time after_first_pass) 3600,
         Log_received 200 ''OK'',
         Log_keyboard_interrupt]
      @ finalization
          (generate_unique_csv_filename
             (scripted clock_2024 [ok_response [candle_a], ReadRaises 200 ''OK'' KeyboardInterrupt]))
          (candle_data after_first_pass)) \<and>
   finalization ''hourly_candles_20240315_123000.csv'' (candle_data after_first_pass)
     = [Log_writing 1,
        Write_csv ''hourly_candles_20240315_123000.csv'' fieldnames [record_of ''BTC-USD'' candle_a],
        Log_wrote 1 ''hourly_candles_20240315_123000.csv'']"
proof -
  let ?E = "scripted clock_2024 [ok_response [candle_a], SendRaises KeyboardInterrupt]"
  let ?F = "scripted clock_2024 [ok_response [candle_a], ReadRaises 200 ''OK'' KeyboardInterrupt]"
  have netE: "network ?E 1 = SendRaises KeyboardInterrupt"
    and netF: "network ?F 1 = ReadRaises 200 ''OK'' KeyboardInterrupt"
    by (simp_all add: scripted_def)
  note sent = keyboard_interrupt_swallowed
    [OF granularity_3600 reach_first_pass start_second_pass, of "[SendRaises KeyboardInterrupt]",
      THEN conjunct1, rule_format, OF netE]
  note read = keyboard_interrupt_swallowed
    [OF granularity_3600 reach_first_pass start_second_pass,
      of "[ReadRaises 200 ''OK'' KeyboardInterrupt]" 200 "''OK''",
      THEN conjunct2, rule_format, OF netF]
  have "finalization ''hourly_candles_20240315_123000.csv'' (candle_data after_first_pass)
     = [Log_writing 1,
        Write_csv ''hourly_candles_20240315_123000.csv'' fieldnames [record_of ''BTC-USD'' candle_a],
        Log_wrote 1 ''hourly_candles_20240315_123000.csv'']"
    by (simp add: finalization_def after_first_pass_def)
  with sent read netE netF show ?thesis
    by simp
qed

text \<open>
  Claim C10. When the loop reaches its pass \<open>k\<close> with the variables \<open>st\<close> and the
  response (status 200) is an array that starts with the raw candles \<open>good\<close>,
  followed by a candle whose record cannot be built, the finalization step runs on
  the records accumulated before that pass followed by the records of \<open>good\<close>; when
  \<open>good\<close> is not empty the file written holds exactly these rows.
\<close>

theorem partial_response_kept:
  assumes "granularity \<in> set allowed_granularities"
    and "reach E product_id granularity k 0 (initial_vars E) = Some (st, evs)"
    and "minus_one_day (end_time st) = Inr start_time"
    and "network E k =
           Response 200 reason (Parsed (JArr (map json_of_candle good @ bad # rest)))"
    and "list_all (\<lambda>c. valid_timestamp (fst c)) good"
    and "make_record E product_id bad = Inl e"
  shows "snd (fetch_and_store_candles E product_id granularity) =
            started E @ evs
            @ [Log_fetching start_time (end_time st),
               Request product_id start_time (end_time st) granularity,
               Log_received 200 reason]
            @ snd (handlers (Some e))
            @ finalization (generate_unique_csv_filename E)
                (candle_data st @ map (record_of product_id) good) \<and>
         (good \<noteq> [] \<longrightarrow>
            Write_csv (generate_unique_csv_filename E) fieldnames
                (candle_data st @ map (record_of product_id) good)
              \<in> set (snd (fetch_and_store_candles E product_id granularity)))"
proof -
  from assms(5,6) have "append_candles E product_id (map json_of_candle good @ bad # rest)
      (candle_data st) = (Some e, candle_data st @ map (record_of product_id) good)"
    by (rule append_candles_partial)
  with assms(3,4) have "loop E product_id granularity k st =
      (Some e, st\<lparr>candle_data := candle_data st @ map (record_of product_id) good\<rparr>,
       [Log_fetching start_time (end_time st),
        Request product_id start_time (end_time st) granularity,
        Log_received 200 reason])"
    by (simp add: loop_Raise iteration_candles_raise)
  from run_reach [OF assms(1,2) this]
  have run: "snd (fetch_and_store_candles E product_id granularity) =
            started E @ evs
            @ [Log_fetching start_time (end_time st),
               Request product_id start_time (end_time st) granularity,
               Log_received 200 reason]
            @ snd (handlers (Some e))
            @ finalization (generate_unique_csv_filename E)
                (candle_data st @ map (record_of product_id) good)"
    by simp
  then show ?thesis
    by (simp add: finalization_def)
qed

text \<open>
  The property at a run whose second response holds \<open>candle_b\<close> and then a candle
  of three elements: the file holds the records of \<open>candle_a\<close> and \<open>candle_b\<close>.
\<close>

theorem partial_response_kept_witness:
  "network (scripted clock_2024
       [ok_response [candle_a],
        Response 200 ''OK'' (Parsed (JArr (map json_of_candle [candle_b]
           @ JArr [JInt 1710367200, JInt 270, JInt 277] # [])))]) 1
     = Response 200 ''OK'' (Parsed (JArr (map json_of_candle [candle_b]
           @ JArr [JInt 1710367200, JInt 270, JInt 277] # []))) \<and>
   list_all (\<lambda>c. valid_timestamp (fst c)) [candle_b] \<and>
   make_record (scripted clock_2024
       [ok_response [candle_a],
        Response 200 ''OK'' (Parsed (JArr (map json_of_candle [candle_b]
           @ JArr [JInt 1710367200, JInt 270, JInt 277] # [])))])
       ''BTC-USD'' (JArr [JInt 1710367200, JInt 270, JInt 277])
     = Inl IndexError \<and>
   Write_csv
       (generate_unique_csv_filename (scripted clock_2024
         [ok_response [candle_a],
          Response 200 ''OK'' (Parsed (JArr (map json_of_candle [candle_b]
             @ JArr [JInt 1710367200, JInt 270, JInt 277] # [])))]))
       fieldnames
       (candle_data after_first_pass @ map (record_of ''BTC-USD'') [candle_b])
     \<in> set (snd (fetch_and_store_candles (scripted clock_2024
         [ok_response [candle_a],
          Response 200 ''OK'' (Parsed (JArr (map json_of_candle [candle_b]
             @ JArr [JInt 1710367200, JInt 270, JInt 277] # [])))])
         ''BTC-USD'' 3600)) \<and>
   candle_data after_first_pass @ map (record_of ''BTC-USD'') [candle_b]
     = [record_of ''BTC-USD'' candle_a, record_of ''BTC-USD'' candle_b]"
proof -
  let ?bad = "JArr [JInt 1710367200, JInt 270, JInt 277]"
  let ?E = "scripted clock_2024
       [ok_response [candle_a],
        Response 200 ''OK'' (Parsed (JArr (map json_of_candle [candle_b] @ ?bad # [])))]"
  have net: "network ?E 1
      = Response 200 ''OK'' (Parsed (JArr (map json_of_candle [candle_b] @ ?bad # [])))"
    by (simp add: scripted_def)
  have good: "list_all (\<lambda>c. valid_timestamp (fst c)) [candle_b]"
    by (simp add: valid_candles)
  have bad: "make_record ?E ''BTC-USD'' ?bad = Inl IndexError"
    by (simp add: make_record_def fromtimestamp_int_def DATETIME_MIN_def DATETIME_MAX_def
          SECOND_def)
  have "[candle_b] \<noteq> []"
    by simp
  from partial_response_kept
    [OF granularity_3600 reach_first_pass start_second_pass net good bad,
      THEN conjunct2, rule_format, OF this]
  have "Write_csv (generate_unique_csv_filename ?E) fieldnames
      (candle_data after_first_pass @ map (record_of ''BTC-USD'') [candle_b])
        \<in> set (snd (fetch_and_store_candles ?E ''BTC-USD'' 3600))" .
  with net good bad show ?thesis
    by (simp add: after_first_pass_def)
qed

end
